theory Spec2Isabelle
  imports Complex_Main
begin

section \<open>Data model\<close>

text \<open>
  The connector drives Microsoft Defender for Endpoint through its REST API
  (\<^verbatim>\<open>app/lib/MicrosoftDefender.py\<close>). Everything the class does beyond computing is an
  effect on the outside world: an HTTP request, a sleep, a log line. The model makes the
  effects explicit as a history of events, newest first, and lets the outside world answer
  each request as a function of the history up to and including that request.
\<close>

datatype exn = ZeroDivisionError | IndexError

datatype action_kind = COLLECT_INVESTIGATION_PACKAGE | ANTI_VIRUS_SCAN | STOP_AND_QUARANTINE_FILE | ISOLATION

text \<open>One entry of the \<^verbatim>\<open>value\<close> list of \<^verbatim>\<open>GET /api/machineactions\<close>.\<close>

record action =
  action_type :: string
  action_status :: string

text \<open>The record of one machine action, \<^verbatim>\<open>GET /api/machineactions/{id}\<close>.\<close>

record command =
  cmd_index :: int
  cmd_type :: string
  cmd_errors :: "string list"
  cmd_status :: string

record machine_action =
  ma_id :: string
  ma_status :: string
  ma_commands :: "command list"

text \<open>
  What a request comes back with: the request or the decoding of its body raised
  (\<open>Failure\<close>, with the exception's text), the body carries an \<^verbatim>\<open>error\<close> key
  (\<open>ErrorBody\<close>, with its message), or the body is a payload.
\<close>

datatype 'a reply = Failure string | ErrorBody string | Body 'a

text \<open>The text of an error line: the vendor's or the exception's words, or one of the
  connector's own messages.\<close>

datatype err_text =
    Text string
  | ValueKeyNotFound
  | JobTimeoutHit nat
  | MachineNotAvailable nat
  | Exn exn

datatype log_msg =
    MachineBusy string string string
  | MachineAvailable string
  | ListActionsFailed string err_text
  | GetActionFailed string err_text
  | CancelFailed string err_text
  | Cancelled string
  | WaitingJobsToStart nat string
  | TryingToStart string string
  | LiveResponseError string string err_text
  | JobStarted string string
  | ParseFailed string err_text
  | CreateFailed string err_text
  | MachineTimeout string nat
  | WaitingJob string string
  | JobFinished string string
  | JobFailed string string err_text
  | ResultFailed string err_text
  | ActionBegin action_kind nat
  | ActionOnMachine action_kind string
  | ActionFailed action_kind string err_text
  | ActionStarted action_kind string

datatype level = INFO | WARNING | ERROR

datatype event =
    Sleep rat
  | ListActions string
  | GetAction string
  | CancelAction string
  | RunLiveResponse string string
  | GetResult string int
  | SubmitAction action_kind string
  | Log level log_msg

text \<open>
  The vendor side. Each field answers one endpoint; its argument is the history whose
  head is the request being answered. \<open>list_actions_reply\<close> gives the \<^verbatim>\<open>value\<close>
  key of the body when there is one, \<open>submit_live_response_reply\<close> the \<^verbatim>\<open>id\<close> of
  the created action, \<open>result_reply\<close> the \<^verbatim>\<open>value\<close> key (the download link).
\<close>

record env =
  list_actions_reply :: "event list \<Rightarrow> action list option reply"
  get_action_reply :: "event list \<Rightarrow> machine_action reply"
  cancel_reply :: "event list \<Rightarrow> unit reply"
  submit_live_response_reply :: "event list \<Rightarrow> string reply"
  result_reply :: "event list \<Rightarrow> string option reply"
  submit_action_reply :: "event list \<Rightarrow> unit reply"

text \<open>
  \<^verbatim>\<open>app.config.conf\<close> is not among the sources; its values are parameters. The three
  durations are whole seconds. \<open>ACTIVE\<close> and \<open>VERDICTS\<close> are the per-kind switches of
  \<^verbatim>\<open>MicrosoftDefenderConfig.MACHINE_ACTION\<close>; \<open>SUCCEEDED\<close>, \<open>TIMEOUT\<close>,
  \<open>FAIL\<close> and \<open>NOT_AVAILABLE\<close> are the constants of \<^verbatim>\<open>MACHINE_ACTION_STATUS\<close>.
\<close>

record config =
  JOB_TIMEOUT :: nat
  MACHINE_TIMEOUT :: nat
  SLEEP :: nat
  ACTIVE :: "action_kind \<Rightarrow> bool"
  VERDICTS :: "action_kind \<Rightarrow> string list"
  SUCCEEDED :: string
  TIMEOUT :: string
  FAIL :: "string list"
  NOT_AVAILABLE :: "string list"

section \<open>Remote action client\<close>

text \<open>\<^verbatim>\<open>get_machine_actions\<close>: the list of a machine's actions, or \<open>None\<close> on any error.\<close>

definition get_machine_actions :: "env \<Rightarrow> event list \<Rightarrow> string \<Rightarrow> action list option \<times> event list" where
  "get_machine_actions world tr machine_id =
     (let tr1 = ListActions machine_id # tr in
      case list_actions_reply world tr1 of
        Failure err \<Rightarrow> (None, Log ERROR (ListActionsFailed machine_id (Text err)) # tr1)
      | ErrorBody msg \<Rightarrow> (None, Log ERROR (ListActionsFailed machine_id (Text msg)) # tr1)
      | Body None \<Rightarrow> (None, Log ERROR (ListActionsFailed machine_id ValueKeyNotFound) # tr1)
      | Body (Some v) \<Rightarrow> (Some v, tr1))"

text \<open>\<^verbatim>\<open>get_machine_action\<close>: the record of one action, or \<open>None\<close> on any error.\<close>

definition get_machine_action :: "env \<Rightarrow> event list \<Rightarrow> string \<Rightarrow> machine_action option \<times> event list" where
  "get_machine_action world tr live_response_id =
     (let tr1 = GetAction live_response_id # tr in
      case get_action_reply world tr1 of
        Failure err \<Rightarrow> (None, Log ERROR (GetActionFailed live_response_id (Text err)) # tr1)
      | ErrorBody msg \<Rightarrow> (None, Log ERROR (GetActionFailed live_response_id (Text msg)) # tr1)
      | Body ma \<Rightarrow> (Some ma, tr1))"

text \<open>\<^verbatim>\<open>cancel_machine_action\<close>: whether the cancellation request went through.\<close>

definition cancel_machine_action :: "env \<Rightarrow> event list \<Rightarrow> string \<Rightarrow> bool \<times> event list" where
  "cancel_machine_action world tr live_response_id =
     (let tr1 = CancelAction live_response_id # tr in
      case cancel_reply world tr1 of
        Failure err \<Rightarrow> (False, Log ERROR (CancelFailed live_response_id (Text err)) # tr1)
      | ErrorBody msg \<Rightarrow> (False, Log ERROR (CancelFailed live_response_id (Text msg)) # tr1)
      | Body u \<Rightarrow> (True, Log INFO (Cancelled live_response_id) # tr1))"

section \<open>Availability gate\<close>

text \<open>The \<^verbatim>\<open>for\<close> loop of \<^verbatim>\<open>is_machine_available\<close>: the first listed action whose
  status is in the not-available set ends the loop.\<close>

fun first_busy :: "string list \<Rightarrow> action list \<Rightarrow> action option" where
  "first_busy busy [] = None"
| "first_busy busy (a # as) =
     (if action_status a \<in> set busy then Some a else first_busy busy as)"

definition is_machine_available :: "config \<Rightarrow> env \<Rightarrow> event list \<Rightarrow> string \<Rightarrow> bool \<times> event list" where
  "is_machine_available cfg world tr machine_id =
     (case get_machine_actions world tr machine_id of
        (Some machine_actions, tr1) \<Rightarrow>
          (case first_busy (NOT_AVAILABLE cfg) machine_actions of
             Some a \<Rightarrow>
               (False, Log WARNING (MachineBusy machine_id (action_type a) (action_status a)) # tr1)
           | None \<Rightarrow> (True, Log INFO (MachineAvailable machine_id) # tr1))
      | (None, tr1) \<Rightarrow> (False, tr1))"

section \<open>Job lifecycle tracker\<close>

text \<open>
  \<^verbatim>\<open>app.lib.Models\<close> is not among the sources. The records below hold the attributes
  of \<^verbatim>\<open>LiveResponse\<close> and \<^verbatim>\<open>Evidence\<close> that the connector reads and writes.
\<close>

record live_response =
  lr_id :: string
  lr_index :: int
  lr_status :: string
  lr_timeout_counter :: nat
  has_error :: bool
  is_finished :: bool

record evidence =
  sha256 :: string
  sha1 :: string
  absolute_path :: string
  machines :: "string list"
  live_response :: live_response
  download_url :: "string option"

text \<open>
  The loop conditions compare a quotient of two configured durations with a counter:
  \<^verbatim>\<open>JOB_TIMEOUT / SLEEP > counter\<close> and, after the loop, \<^verbatim>\<open>JOB_TIMEOUT / SLEEP <= counter\<close>.
  The division is Python 3's true division (the module imports \<^verbatim>\<open>pathlib\<close> and sleeps
  for \<^verbatim>\<open>SLEEP / 60\<close> seconds), so the quotient is not rounded down; it is taken here
  over the rationals, which agrees with the floating-point comparison for durations of
  any realistic size. Dividing by a \<^verbatim>\<open>SLEEP\<close> of zero raises
  \<^verbatim>\<open>ZeroDivisionError\<close>, which the loops below check before they use the quotient.
\<close>

definition within_budget :: "nat \<Rightarrow> nat \<Rightarrow> nat \<Rightarrow> bool" where
  "within_budget timeout sleep counter \<longleftrightarrow> (of_nat timeout / of_nat sleep :: rat) > of_nat counter"

definition budget_spent :: "nat \<Rightarrow> nat \<Rightarrow> nat \<Rightarrow> bool" where
  "budget_spent timeout sleep counter \<longleftrightarrow> (of_nat timeout / of_nat sleep :: rat) \<le> of_nat counter"

text \<open>\<^verbatim>\<open>machine_action["commands"][0]["errors"][0]\<close>, which raises \<^verbatim>\<open>IndexError\<close>
  (here \<open>None\<close>) when either list is empty.\<close>

definition first_error :: "machine_action \<Rightarrow> string option" where
  "first_error ma =
     (case ma_commands ma of
        [] \<Rightarrow> None
      | c # cs \<Rightarrow> (case cmd_errors c of [] \<Rightarrow> None | e # es \<Rightarrow> Some e))"

text \<open>
  One pass through the body of the \<^verbatim>\<open>while\<close> loop of \<^verbatim>\<open>wait_live_response\<close>:
  sleep, fetch the record of the job, and act on its status. The first component of the
  result is the exception that left the body, if one did.
\<close>

definition poll :: "config \<Rightarrow> env \<Rightarrow> evidence \<Rightarrow> event list \<Rightarrow> exn option \<times> evidence \<times> event list" where
  "poll cfg world evidence tr =
     (let lr = live_response evidence;
          tr1 = Sleep (of_nat (SLEEP cfg)) # tr in
      case get_machine_action world tr1 (lr_id lr) of
        (Some machine_action, tr2) \<Rightarrow>
          if ma_status machine_action = SUCCEEDED cfg then
            (None,
             evidence\<lparr>live_response := lr\<lparr>lr_status := ma_status machine_action, is_finished := True\<rparr>\<rparr>,
             Log INFO (JobFinished (lr_id lr) (sha256 evidence)) # tr2)
          else if ma_status machine_action \<in> set (FAIL cfg) then
            (case first_error machine_action of
               None \<Rightarrow> (Some IndexError, evidence, tr2)
             | Some e \<Rightarrow>
                 (None,
                  evidence\<lparr>live_response := lr\<lparr>lr_status := ma_status machine_action, has_error := True\<rparr>\<rparr>,
                  Log ERROR (JobFailed (lr_id lr) (sha256 evidence) (Text e)) # tr2))
          else
            (None,
             evidence\<lparr>live_response := lr\<lparr>lr_timeout_counter := lr_timeout_counter lr + 1\<rparr>\<rparr>,
             tr2)
      | (None, tr2) \<Rightarrow> (None, evidence\<lparr>live_response := lr\<lparr>has_error := True\<rparr>\<rparr>, tr2))"

text \<open>The condition of the \<^verbatim>\<open>while\<close> loop.\<close>

definition job_open :: "config \<Rightarrow> evidence \<Rightarrow> bool" where
  "job_open cfg evidence \<longleftrightarrow>
     within_budget (JOB_TIMEOUT cfg) (SLEEP cfg) (lr_timeout_counter (live_response evidence))
     \<and> \<not> has_error (live_response evidence)
     \<and> \<not> is_finished (live_response evidence)"

lemma within_budget_iff: "0 < s \<Longrightarrow> within_budget t s c \<longleftrightarrow> c * s < t"
  unfolding within_budget_def
  by (simp add: pos_less_divide_eq flip: of_nat_mult)

lemma budget_spent_iff: "0 < s \<Longrightarrow> budget_spent t s c \<longleftrightarrow> t \<le> c * s"
  unfolding budget_spent_def
  by (simp add: pos_divide_le_eq flip: of_nat_mult)

text \<open>The loop ends: every pass closes the job or moves the counter towards the budget.\<close>

definition job_measure :: "config \<Rightarrow> evidence \<Rightarrow> nat" where
  "job_measure cfg evidence =
     (if has_error (live_response evidence) \<or> is_finished (live_response evidence) then 0
      else Suc (JOB_TIMEOUT cfg - lr_timeout_counter (live_response evidence) * SLEEP cfg))"

lemma poll_measure:
  assumes "0 < SLEEP cfg" "job_open cfg evidence" "poll cfg world evidence tr = (None, evidence', tr')"
  shows "job_measure cfg evidence' < job_measure cfg evidence"
  using assms
  by (auto simp: poll_def job_open_def job_measure_def Let_def within_budget_iff
      split: prod.splits option.splits if_splits)

function wait_loop :: "config \<Rightarrow> env \<Rightarrow> evidence \<Rightarrow> event list \<Rightarrow> exn option \<times> evidence \<times> event list" where
  "wait_loop cfg world evidence tr =
     (if SLEEP cfg = 0 then (Some ZeroDivisionError, evidence, tr)
      else if job_open cfg evidence then
        (case poll cfg world evidence tr of
           (None, evidence', tr') \<Rightarrow> wait_loop cfg world evidence' tr'
         | (Some e, evidence', tr') \<Rightarrow> (Some e, evidence', tr'))
      else (None, evidence, tr))"
  by pat_completeness auto
termination
  by (relation "measure (\<lambda>(cfg, world, evidence, tr). job_measure cfg evidence)")
     (auto intro: poll_measure [OF _ _ sym])

declare wait_loop.simps [simp del]

text \<open>
  \<^verbatim>\<open>wait_live_response\<close>: the loop, then the timeout block, which marks the job, asks
  the vendor to cancel it and sleeps once more. The answer of the cancellation is not read.
\<close>

definition wait_live_response :: "config \<Rightarrow> env \<Rightarrow> evidence \<Rightarrow> event list \<Rightarrow> exn option \<times> evidence \<times> event list" where
  "wait_live_response cfg world evidence tr =
     (case wait_loop cfg world evidence
             (Log INFO (WaitingJob (lr_id (live_response evidence)) (sha256 evidence)) # tr) of
        (Some e, evidence', tr') \<Rightarrow> (Some e, evidence', tr')
      | (None, evidence', tr') \<Rightarrow>
          if budget_spent (JOB_TIMEOUT cfg) (SLEEP cfg) (lr_timeout_counter (live_response evidence')) then
            (let lr = live_response evidence';
                 tr1 = Log ERROR (JobFailed (lr_id lr) (sha256 evidence') (JobTimeoutHit (JOB_TIMEOUT cfg))) # tr';
                 evidence'' = evidence'\<lparr>live_response := lr\<lparr>has_error := True, lr_status := TIMEOUT cfg\<rparr>\<rparr>;
                 (cancelled, tr2) = cancel_machine_action world tr1 (lr_id lr)
             in (None, evidence'', Sleep (of_nat (SLEEP cfg)) # tr2))
          else (None, evidence', tr'))"

section \<open>Action sequencer: containment actions\<close>

text \<open>
  \<^verbatim>\<open>isolate_machine\<close>, \<^verbatim>\<open>run_antivirus_scan\<close>, \<^verbatim>\<open>collect_investigation_package\<close>
  and \<^verbatim>\<open>stop_and_quarantine_file\<close> are four copies of one text: they differ in the
  endpoint, in the request body and in the words of the log lines, and in nothing that
  decides which requests are made. The model has the text once, with the kind of action
  as a parameter that the events carry, and the four functions as its instances.

  First the \<^verbatim>\<open>while\<close> loop, over \<^verbatim>\<open>timeout_count\<close> and \<^verbatim>\<open>is_job_pending\<close>:
  check the machine; when it is available send the request and, whatever comes back,
  stop; when it is not, count and sleep.
\<close>

function submit_loop ::
  "config \<Rightarrow> env \<Rightarrow> action_kind \<Rightarrow> string \<Rightarrow> nat \<Rightarrow> bool \<Rightarrow> event list \<Rightarrow> exn option \<times> nat \<times> event list" where
  "submit_loop cfg world kind machine_id timeout_count is_job_pending tr =
     (if SLEEP cfg = 0 then (Some ZeroDivisionError, timeout_count, tr)
      else if within_budget (MACHINE_TIMEOUT cfg) (SLEEP cfg) timeout_count \<and> is_job_pending then
        (case is_machine_available cfg world tr machine_id of
           (True, tr1) \<Rightarrow>
             (let tr2 = SubmitAction kind machine_id # tr1 in
              case submit_action_reply world tr2 of
                Failure err \<Rightarrow>
                  submit_loop cfg world kind machine_id timeout_count False
                    (Log ERROR (ActionFailed kind machine_id (Text err)) # tr2)
              | ErrorBody msg \<Rightarrow>
                  submit_loop cfg world kind machine_id timeout_count False
                    (Log ERROR (ActionFailed kind machine_id (Text msg)) # tr2)
              | Body u \<Rightarrow>
                  submit_loop cfg world kind machine_id timeout_count False
                    (Log INFO (ActionStarted kind machine_id) # tr2))
         | (False, tr1) \<Rightarrow>
             submit_loop cfg world kind machine_id (timeout_count + 1) True
               (Sleep (of_nat (SLEEP cfg)) # tr1))
      else (None, timeout_count, tr))"
  by pat_completeness auto
termination
  by (relation "measure (\<lambda>(cfg, world, kind, machine_id, timeout_count, is_job_pending, tr).
        if is_job_pending then Suc (MACHINE_TIMEOUT cfg - timeout_count * SLEEP cfg) else 0)")
     (auto simp: within_budget_iff)

declare submit_loop.simps [simp del]

text \<open>The body of the \<^verbatim>\<open>for\<close> loop over the machines of the evidence: a counter of its
  own, the loop, and then either the error line of the timeout or one more sleep.\<close>

definition action_on_machine ::
  "config \<Rightarrow> env \<Rightarrow> action_kind \<Rightarrow> string \<Rightarrow> event list \<Rightarrow> exn option \<times> event list" where
  "action_on_machine cfg world kind machine_id tr =
     (case submit_loop cfg world kind machine_id 0 True (Log INFO (ActionOnMachine kind machine_id) # tr) of
        (Some e, timeout_count, tr1) \<Rightarrow> (Some e, tr1)
      | (None, timeout_count, tr1) \<Rightarrow>
          if budget_spent (MACHINE_TIMEOUT cfg) (SLEEP cfg) timeout_count then
            (None, Log ERROR (ActionFailed kind machine_id (MachineNotAvailable (MACHINE_TIMEOUT cfg))) # tr1)
          else (None, Sleep (of_nat (SLEEP cfg)) # tr1))"

fun action_on_machines ::
  "config \<Rightarrow> env \<Rightarrow> action_kind \<Rightarrow> string list \<Rightarrow> event list \<Rightarrow> exn option \<times> event list" where
  "action_on_machines cfg world kind [] tr = (None, tr)"
| "action_on_machines cfg world kind (machine_id # rest) tr =
     (case action_on_machine cfg world kind machine_id tr of
        (Some e, tr1) \<Rightarrow> (Some e, tr1)
      | (None, tr1) \<Rightarrow> action_on_machines cfg world kind rest tr1)"

text \<open>\<^verbatim>\<open>evidence.machines\<close> is a set of machine ids; the list is the order in which the
  loop meets them.\<close>

definition run_action :: "action_kind \<Rightarrow> config \<Rightarrow> env \<Rightarrow> evidence \<Rightarrow> event list \<Rightarrow> exn option \<times> event list" where
  "run_action kind cfg world evidence tr =
     action_on_machines cfg world kind (machines evidence)
       (Log INFO (ActionBegin kind (length (machines evidence))) # tr)"

definition isolate_machine :: "config \<Rightarrow> env \<Rightarrow> evidence \<Rightarrow> event list \<Rightarrow> exn option \<times> event list" where
  "isolate_machine = run_action ISOLATION"

definition run_antivirus_scan :: "config \<Rightarrow> env \<Rightarrow> evidence \<Rightarrow> event list \<Rightarrow> exn option \<times> event list" where
  "run_antivirus_scan = run_action ANTI_VIRUS_SCAN"

definition collect_investigation_package :: "config \<Rightarrow> env \<Rightarrow> evidence \<Rightarrow> event list \<Rightarrow> exn option \<times> event list" where
  "collect_investigation_package = run_action COLLECT_INVESTIGATION_PACKAGE"

definition stop_and_quarantine_file :: "config \<Rightarrow> env \<Rightarrow> evidence \<Rightarrow> event list \<Rightarrow> exn option \<times> event list" where
  "stop_and_quarantine_file = run_action STOP_AND_QUARANTINE_FILE"

section \<open>Action sequencer: live response\<close>

text \<open>
  \<^verbatim>\<open>Machine\<close> of \<^verbatim>\<open>app.lib.Models\<close>, by the attributes \<^verbatim>\<open>run_live_response\<close> uses.
  Two methods of the module are called and are not among the sources; they are parameters:
  \<^verbatim>\<open>Machine.has_pending_actions()\<close> and \<^verbatim>\<open>LiveResponse.start(index, errors, status,
  start_time, id)\<close> (without the time, which nothing below reads).
\<close>

record machine =
  m_id :: string
  evidences :: "evidence list"
  m_timeout_counter :: nat

record models =
  has_pending_actions :: "machine \<Rightarrow> bool"
  start :: "live_response \<Rightarrow> int \<Rightarrow> string list \<Rightarrow> string \<Rightarrow> string \<Rightarrow> live_response"

text \<open>\<^verbatim>\<open>get_live_response_result\<close>: the download link of a finished job, or \<open>None\<close> on
  any error.\<close>

definition get_live_response_result :: "env \<Rightarrow> event list \<Rightarrow> evidence \<Rightarrow> string option \<times> event list" where
  "get_live_response_result world tr evidence =
     (let lr = live_response evidence;
          tr1 = GetResult (lr_id lr) (lr_index lr) # tr in
      case result_reply world tr1 of
        Failure err \<Rightarrow> (None, Log ERROR (ResultFailed (lr_id lr) (Text err)) # tr1)
      | ErrorBody msg \<Rightarrow> (None, Log ERROR (ResultFailed (lr_id lr) (Text msg)) # tr1)
      | Body None \<Rightarrow> (None, Log ERROR (ResultFailed (lr_id lr) ValueKeyNotFound) # tr1)
      | Body (Some v) \<Rightarrow> (Some v, tr1))"

text \<open>The loop over the commands of the created action: every \<^verbatim>\<open>GetFile\<close> command
  starts the live response of the evidence.\<close>

fun start_commands :: "models \<Rightarrow> live_response \<Rightarrow> command list \<Rightarrow> string \<Rightarrow> live_response" where
  "start_commands ops lr [] action_id = lr"
| "start_commands ops lr (c # cs) action_id =
     start_commands ops
       (if cmd_type c = ''GetFile''
        then start ops lr (cmd_index c) (cmd_errors c) (cmd_status c) action_id else lr)
       cs action_id"

text \<open>
  The body of the loop over the evidences of a machine. When the second availability
  check fails, the evidence is left for a later pass after a sleep of \<^verbatim>\<open>SLEEP / 60\<close>
  seconds. Otherwise the job is created; an error body or a failed request marks the job
  failed; else the record of the new action is read after five seconds, the job is started
  and waited for, and a finished job gets its download link. An exception that leaves the
  wait is caught here and marks the job failed.
\<close>

definition live_response_for ::
  "config \<Rightarrow> models \<Rightarrow> env \<Rightarrow> string \<Rightarrow> evidence \<Rightarrow> event list \<Rightarrow> evidence \<times> event list" where
  "live_response_for cfg ops world machine_id evidence tr =
     (case is_machine_available cfg world tr machine_id of
        (False, tr1) \<Rightarrow> (evidence, Sleep (of_nat (SLEEP cfg) / 60) # tr1)
      | (True, tr1) \<Rightarrow>
          (let tr2 = RunLiveResponse machine_id (absolute_path evidence)
                       # Log INFO (TryingToStart (absolute_path evidence) machine_id) # tr1;
               failed = evidence\<lparr>live_response := (live_response evidence)\<lparr>has_error := True\<rparr>\<rparr>
           in case submit_live_response_reply world tr2 of
                Failure err \<Rightarrow> (failed, Log ERROR (CreateFailed machine_id (Text err)) # tr2)
              | ErrorBody msg \<Rightarrow>
                  (failed, Log ERROR (LiveResponseError machine_id (sha256 evidence) (Text msg)) # tr2)
              | Body action_id \<Rightarrow>
                  (case get_machine_action world (Sleep 5 # tr2) action_id of
                     (None, tr3) \<Rightarrow> (evidence, tr3)
                   | (Some json_response, tr3) \<Rightarrow>
                       (let lr = start_commands ops (live_response evidence)
                                   (ma_commands json_response) (ma_id json_response);
                            started = evidence\<lparr>live_response := lr\<rparr>;
                            tr4 = Log INFO (JobStarted (lr_id lr) (sha256 evidence)) # tr3
                        in case wait_live_response cfg world started tr4 of
                             (Some e, waited, tr5) \<Rightarrow>
                               (waited\<lparr>live_response := (live_response waited)\<lparr>has_error := True\<rparr>\<rparr>,
                                Log ERROR (ParseFailed machine_id (Exn e)) # tr5)
                           | (None, waited, tr5) \<Rightarrow>
                               if is_finished (live_response waited) then
                                 (case get_live_response_result world tr5 waited of
                                    (Some url, tr6) \<Rightarrow> (waited\<lparr>download_url := Some url\<rparr>, tr6)
                                  | (None, tr6) \<Rightarrow> (waited, tr6))
                               else (waited, tr5)))))"

fun live_response_for_all ::
  "config \<Rightarrow> models \<Rightarrow> env \<Rightarrow> string \<Rightarrow> evidence list \<Rightarrow> event list \<Rightarrow> evidence list \<times> event list" where
  "live_response_for_all cfg ops world machine_id [] tr = ([], tr)"
| "live_response_for_all cfg ops world machine_id (evidence # rest) tr =
     (case live_response_for cfg ops world machine_id evidence tr of
        (evidence', tr1) \<Rightarrow>
          (case live_response_for_all cfg ops world machine_id rest tr1 of
             (rest', tr2) \<Rightarrow> (evidence' # rest', tr2)))"

text \<open>One pass through the body of the \<^verbatim>\<open>while\<close> loop over a machine: the first
  availability check, then either the loop over the evidences, or a sleep and one more on
  the machine's counter.\<close>

definition machine_pass :: "config \<Rightarrow> models \<Rightarrow> env \<Rightarrow> machine \<Rightarrow> event list \<Rightarrow> machine \<times> event list" where
  "machine_pass cfg ops world machine tr =
     (case is_machine_available cfg world tr (m_id machine) of
        (True, tr1) \<Rightarrow>
          (case live_response_for_all cfg ops world (m_id machine) (evidences machine) tr1 of
             (evidences', tr2) \<Rightarrow> (machine\<lparr>evidences := evidences'\<rparr>, tr2))
      | (False, tr1) \<Rightarrow>
          (machine\<lparr>m_timeout_counter := m_timeout_counter machine + 1\<rparr>,
           Sleep (of_nat (SLEEP cfg)) # tr1))"

text \<open>
  The \<^verbatim>\<open>while\<close> loop. Only a failed first check moves the counter, so the loop need not
  end: a machine that passes the first check and fails the second, with an evidence still
  pending, is asked again and again. The loop is therefore given fuel, one unit a pass, and
  \<open>None\<close> says that the fuel ran out before the loop ended.
\<close>

fun machine_loop ::
  "nat \<Rightarrow> config \<Rightarrow> models \<Rightarrow> env \<Rightarrow> machine \<Rightarrow> event list \<Rightarrow> (exn option \<times> machine \<times> event list) option" where
  "machine_loop 0 cfg ops world machine tr = None"
| "machine_loop (Suc fuel) cfg ops world machine tr =
     (if SLEEP cfg = 0 then Some (Some ZeroDivisionError, machine, tr)
      else if within_budget (MACHINE_TIMEOUT cfg) (SLEEP cfg) (m_timeout_counter machine)
              \<and> has_pending_actions ops machine then
        (case machine_pass cfg ops world machine tr of
           (machine', tr') \<Rightarrow> machine_loop fuel cfg ops world machine' tr')
      else Some (None, machine, tr))"

text \<open>The body of the loop over the machines, and the loop: \<^verbatim>\<open>run_live_response\<close>.\<close>

definition run_live_response_on ::
  "nat \<Rightarrow> config \<Rightarrow> models \<Rightarrow> env \<Rightarrow> machine \<Rightarrow> event list \<Rightarrow> (exn option \<times> machine \<times> event list) option" where
  "run_live_response_on fuel cfg ops world machine tr =
     (case machine_loop fuel cfg ops world machine
             (Log INFO (WaitingJobsToStart (length (evidences machine)) (m_id machine)) # tr) of
        None \<Rightarrow> None
      | Some (Some e, machine', tr') \<Rightarrow> Some (Some e, machine', tr')
      | Some (None, machine', tr') \<Rightarrow>
          Some (None, machine',
                if has_pending_actions ops machine'
                then Log ERROR (MachineTimeout (m_id machine') (MACHINE_TIMEOUT cfg)) # tr' else tr'))"

fun run_live_response ::
  "nat \<Rightarrow> config \<Rightarrow> models \<Rightarrow> env \<Rightarrow> machine list \<Rightarrow> event list \<Rightarrow> (exn option \<times> machine list \<times> event list) option" where
  "run_live_response fuel cfg ops world [] tr = Some (None, [], tr)"
| "run_live_response fuel cfg ops world (machine # rest) tr =
     (case run_live_response_on fuel cfg ops world machine tr of
        None \<Rightarrow> None
      | Some (Some e, machine', tr1) \<Rightarrow> Some (Some e, machine' # rest, tr1)
      | Some (None, machine', tr1) \<Rightarrow>
          (case run_live_response fuel cfg ops world rest tr1 of
             None \<Rightarrow> None
           | Some (x, rest', tr2) \<Rightarrow> Some (x, machine' # rest', tr2)))"

section \<open>Remediation planner\<close>

text \<open>
  \<^verbatim>\<open>run_automated_machine_actions\<close>: four \<^verbatim>\<open>if\<close> statements in a row, each running
  one kind of action when the kind is active and the verdict of the sample is among the
  kind's verdicts. \<open>sample_verdict\<close> is \<^verbatim>\<open>sample_data["sample_verdict"]\<close>. \<open>when_triggered\<close> is one
  such statement, run after what came before it returned; an exception that leaves a
  statement leaves the function.
\<close>

definition triggered :: "config \<Rightarrow> string \<Rightarrow> action_kind \<Rightarrow> bool" where
  "triggered cfg sample_verdict kind \<longleftrightarrow> ACTIVE cfg kind \<and> sample_verdict \<in> set (VERDICTS cfg kind)"

definition when_triggered ::
  "bool \<Rightarrow> (event list \<Rightarrow> exn option \<times> event list) \<Rightarrow> exn option \<times> event list \<Rightarrow> exn option \<times> event list" where
  "when_triggered b f r =
     (case r of
        (Some e, tr) \<Rightarrow> (Some e, tr)
      | (None, tr) \<Rightarrow> if b then f tr else (None, tr))"

definition run_automated_machine_actions ::
  "config \<Rightarrow> env \<Rightarrow> string \<Rightarrow> evidence \<Rightarrow> event list \<Rightarrow> exn option \<times> event list" where
  "run_automated_machine_actions cfg world sample_verdict evidence tr =
     (let r1 = when_triggered (triggered cfg sample_verdict COLLECT_INVESTIGATION_PACKAGE)
                 (collect_investigation_package cfg world evidence) (None, tr);
          r2 = when_triggered (triggered cfg sample_verdict ANTI_VIRUS_SCAN)
                 (run_antivirus_scan cfg world evidence) r1;
          r3 = when_triggered (triggered cfg sample_verdict STOP_AND_QUARANTINE_FILE)
                 (stop_and_quarantine_file cfg world evidence) r2
      in when_triggered (triggered cfg sample_verdict ISOLATION)
           (isolate_machine cfg world evidence) r3)"

section \<open>Observations on a history\<close>

text \<open>How many requests for the record of a job, and how many cancellation requests, a
  history holds.\<close>

definition polls :: "event list \<Rightarrow> nat" where
  "polls tr = length (filter (\<lambda>ev. case ev of GetAction i \<Rightarrow> True | _ \<Rightarrow> False) tr)"

definition cancels :: "event list \<Rightarrow> nat" where
  "cancels tr = length (filter (\<lambda>ev. case ev of CancelAction i \<Rightarrow> True | _ \<Rightarrow> False) tr)"

text \<open>How many availability checks (requests for the list of a machine's actions), how
  many containment requests and how many live-response requests a history holds.\<close>

definition checks :: "event list \<Rightarrow> nat" where
  "checks tr = length (filter (\<lambda>ev. case ev of ListActions m \<Rightarrow> True | _ \<Rightarrow> False) tr)"

definition submits :: "event list \<Rightarrow> nat" where
  "submits tr = length (filter (\<lambda>ev. case ev of SubmitAction k m \<Rightarrow> True | _ \<Rightarrow> False) tr)"

definition live_submits :: "event list \<Rightarrow> nat" where
  "live_submits tr = length (filter (\<lambda>ev. case ev of RunLiveResponse m p \<Rightarrow> True | _ \<Rightarrow> False) tr)"







text \<open>The kinds of containment action begun, oldest first: one entry for each opening log
  line of the four containment functions.\<close>

definition begun_kind :: "event \<Rightarrow> action_kind option" where
  "begun_kind ev = (case ev of Log l (ActionBegin k n) \<Rightarrow> Some k | _ \<Rightarrow> None)"

definition begun :: "event list \<Rightarrow> action_kind list" where
  "begun tr = rev (List.map_filter begun_kind tr)"

text \<open>The least number of whole intervals that cover the timeout: no counter at or above
  it passes the test \<open>within_budget\<close>.\<close>

definition poll_budget :: "nat \<Rightarrow> nat \<Rightarrow> nat" where
  "poll_budget timeout sleep = (timeout + sleep - 1) div sleep"

text \<open>A job is closed once it is marked finished or failed.\<close>

definition terminal :: "evidence \<Rightarrow> bool" where
  "terminal evidence \<longleftrightarrow> has_error (live_response evidence) \<or> is_finished (live_response evidence)"

text \<open>The passes an open job still has.\<close>

definition remaining :: "config \<Rightarrow> evidence \<Rightarrow> nat" where
  "remaining cfg evidence =
     (if terminal evidence then 0
      else poll_budget (JOB_TIMEOUT cfg) (SLEEP cfg) - lr_timeout_counter (live_response evidence))"

text \<open>A job that is closed (finished or failed) was closed by a poll made within the budget.\<close>

definition closed_in_budget :: "config \<Rightarrow> evidence \<Rightarrow> bool" where
  "closed_in_budget cfg evidence \<longleftrightarrow>
     (terminal evidence \<longrightarrow>
        lr_timeout_counter (live_response evidence) * SLEEP cfg < JOB_TIMEOUT cfg)"

section \<open>Concrete configurations and vendor sides\<close>

text \<open>
  A concrete configuration (30 seconds for a job and for a machine, polled every 10
  seconds, every containment kind switched on for the verdict \<open>malicious\<close>) and two
  vendor sides: one whose machines list a single action that has succeeded, one whose
  machines list a single action still in progress.
\<close>

definition demo_config :: config where
  "demo_config =
     \<lparr>JOB_TIMEOUT = 30, MACHINE_TIMEOUT = 30, SLEEP = 10,
      ACTIVE = (\<lambda>k. True), VERDICTS = (\<lambda>k. [''malicious'']),
      SUCCEEDED = ''Succeeded'', TIMEOUT = ''TimeOut'',
      FAIL = [''Failed'', ''TimeOut'', ''Cancelled''],
      NOT_AVAILABLE = [''Pending'', ''InProgress'']\<rparr>"

definition listing :: "string \<Rightarrow> action list option reply" where
  "listing st = Body (Some [\<lparr>action_type = ''LiveResponse'', action_status = st\<rparr>])"

definition idle_world :: env where
  "idle_world =
     \<lparr>list_actions_reply = (\<lambda>h. listing ''Succeeded''),
      get_action_reply = (\<lambda>h. Failure ''unused''),
      cancel_reply = (\<lambda>h. Body ()),
      submit_live_response_reply = (\<lambda>h. Body ''job-1''),
      result_reply = (\<lambda>h. Body (Some ''https://download'')),
      submit_action_reply = (\<lambda>h. Body ())\<rparr>"

definition busy_world :: env where
  "busy_world = idle_world\<lparr>list_actions_reply := (\<lambda>h. listing ''InProgress'')\<rparr>"

definition blank_job :: live_response where
  "blank_job = \<lparr>lr_id = ''job-1'', lr_index = 0, lr_status = ''Pending'', lr_timeout_counter = 0,
     has_error = False, is_finished = False\<rparr>"

definition demo_evidence :: evidence where
  "demo_evidence = \<lparr>sha256 = ''abc'', sha1 = ''def'', absolute_path = ''C:/x.exe'', machines = [''m1''],
      live_response = blank_job, download_url = None\<rparr>"

definition job_record :: "string \<Rightarrow> string list \<Rightarrow> machine_action" where
  "job_record st errs = \<lparr>ma_id = ''job-1'', ma_status = st,
     ma_commands = [\<lparr>cmd_index = 0, cmd_type = ''GetFile'', cmd_errors = errs, cmd_status = st\<rparr>]\<rparr>"

definition stuck_world :: env where
  "stuck_world = idle_world\<lparr>get_action_reply := (\<lambda>h. Body (job_record ''InProgress'' []))\<rparr>"



text \<open>A vendor side that refuses every containment request, and one on which a machine
  shows an action in progress from its first containment request on.\<close>

definition refusing_world :: env where
  "refusing_world = idle_world\<lparr>submit_action_reply := (\<lambda>h. ErrorBody ''Forbidden'')\<rparr>"



text \<open>
  An instance of the two methods of \<^verbatim>\<open>app.lib.Models\<close>, for the concrete runs: a machine
  has pending actions while one of its evidences has a job that is neither finished nor
  failed, and starting a job records the id, the index and the status of the command.
\<close>

definition demo_models :: models where
  "demo_models =
     \<lparr>has_pending_actions = (\<lambda>m. list_ex (\<lambda>e. \<not> terminal e) (evidences m)),
      start = (\<lambda>lr index errors status action_id.
                 lr\<lparr>lr_id := action_id, lr_index := index, lr_status := status\<rparr>)\<rparr>"

definition demo_machine :: machine where
  "demo_machine = \<lparr>m_id = ''m1'', evidences = [demo_evidence], m_timeout_counter = 0\<rparr>"

text \<open>A vendor side on which a machine is free at every odd availability check and busy
  at every even one: free when \<^verbatim>\<open>run_live_response\<close> first looks, busy when it looks
  again before creating the job.\<close>

definition flapping_world :: env where
  "flapping_world =
     idle_world\<lparr>list_actions_reply :=
       (\<lambda>h. if odd (checks h) then listing ''Succeeded'' else listing ''InProgress'')\<rparr>"

text \<open>A vendor side that answers every live-response request with an error body.\<close>

definition rejecting_world :: env where
  "rejecting_world =
     idle_world\<lparr>submit_live_response_reply := (\<lambda>h. ErrorBody ''Machine is not reachable'')\<rparr>"

section \<open>Properties of the availability gate\<close>

lemma first_busy_None: "first_busy busy as = None \<longleftrightarrow> (\<forall>a \<in> set as. action_status a \<notin> set busy)"
  by (induction as) auto

lemma get_machine_actions_Some:
  "fst (get_machine_actions world tr machine_id) = Some v
     \<longleftrightarrow> list_actions_reply world (ListActions machine_id # tr) = Body (Some v)"
  by (auto simp: get_machine_actions_def Let_def split: reply.splits option.splits)

text \<open>
  Claim C1. The machine is reported available exactly when the listing request comes
  back with a list and no action of the list has a status of the not-available set. So
  one busy action makes the answer false, a listing that fails in any way (the request
  raised, the body carries an error, the body has no \<^verbatim>\<open>value\<close> key) makes it false,
  and the answer is true only when every listed action is outside the not-available set.
\<close>

theorem is_machine_available_iff:
  "fst (is_machine_available cfg world tr machine_id) \<longleftrightarrow>
     (\<exists>machine_actions.
        list_actions_reply world (ListActions machine_id # tr) = Body (Some machine_actions)
        \<and> (\<forall>a \<in> set machine_actions. action_status a \<notin> set (NOT_AVAILABLE cfg)))"
proof (cases "get_machine_actions world tr machine_id")
  case (Pair r tr1)
  show ?thesis
  proof (cases r)
    case None
    with Pair have "fst (get_machine_actions world tr machine_id) \<noteq> Some v" for v
      by simp
    then have "list_actions_reply world (ListActions machine_id # tr) \<noteq> Body (Some v)" for v
      by (simp add: get_machine_actions_Some)
    with Pair None show ?thesis
      by (simp add: is_machine_available_def)
  next
    case (Some v)
    with Pair have "fst (get_machine_actions world tr machine_id) = Some v"
      by simp
    then have reply: "list_actions_reply world (ListActions machine_id # tr) = Body (Some v)"
      by (simp add: get_machine_actions_Some)
    show ?thesis
    proof (cases "first_busy (NOT_AVAILABLE cfg) v")
      case None
      then have "\<forall>a \<in> set v. action_status a \<notin> set (NOT_AVAILABLE cfg)"
        using first_busy_None [of "NOT_AVAILABLE cfg" v] by simp
      with Pair Some reply None show ?thesis
        by (simp add: is_machine_available_def)
    next
      case (Some a)
      then have "\<not> (\<forall>a \<in> set v. action_status a \<notin> set (NOT_AVAILABLE cfg))"
        using first_busy_None [of "NOT_AVAILABLE cfg" v] by simp
      with Pair \<open>r = Some v\<close> Some reply show ?thesis
        by (simp add: is_machine_available_def)
    qed
  qed
qed

theorem is_machine_available_iff_witness:
  "fst (is_machine_available demo_config idle_world [] ''m1'')
   \<and> \<not> fst (is_machine_available demo_config busy_world [] ''m1'')
   \<and> \<not> fst (is_machine_available demo_config
           (idle_world\<lparr>list_actions_reply := (\<lambda>h. ErrorBody ''Unauthorized'')\<rparr>) [] ''m1'')"
  using is_machine_available_iff [of demo_config idle_world "[]" "''m1''"]
    is_machine_available_iff [of demo_config busy_world "[]" "''m1''"]
    is_machine_available_iff [of demo_config
      "idle_world\<lparr>list_actions_reply := (\<lambda>h. ErrorBody ''Unauthorized'')\<rparr>" "[]" "''m1''"]
  by (simp add: demo_config_def idle_world_def busy_world_def listing_def)

section \<open>Properties of the job lifecycle tracker\<close>

lemma poll_budget_iff: "0 < s \<Longrightarrow> c < poll_budget t s \<longleftrightarrow> c * s < t"
proof -
  assume s: "0 < s"
  have "c < (t + s - 1) div s \<longleftrightarrow> Suc c * s \<le> t + s - 1"
    using s by (simp add: less_eq_div_iff_mult_less_eq Suc_le_eq [symmetric] del: mult_Suc)
  also have "\<dots> \<longleftrightarrow> c * s < t"
    using s by auto
  finally show ?thesis
    by (simp add: poll_budget_def)
qed

lemma poll_budget_dvd: "0 < s \<Longrightarrow> s dvd t \<Longrightarrow> poll_budget t s = t div s"
proof -
  assume s: "0 < s" and "s dvd t"
  then obtain k where t: "t = k * s" by (auto elim: dvdE)
  have "c < poll_budget t s \<longleftrightarrow> c < t div s" for c
    using s t by (simp add: poll_budget_iff)
  then show ?thesis
    by (meson less_irrefl linorder_neqE_nat)
qed

lemma job_open_iff:
  "0 < SLEEP cfg \<Longrightarrow> job_open cfg evidence \<longleftrightarrow>
     lr_timeout_counter (live_response evidence) < poll_budget (JOB_TIMEOUT cfg) (SLEEP cfg)
     \<and> \<not> terminal evidence"
  by (auto simp: job_open_def terminal_def within_budget_iff poll_budget_iff)

lemma poll_counts:
  "poll cfg world evidence tr = (x, evidence', tr') \<Longrightarrow>
     polls tr' = Suc (polls tr) \<and> cancels tr' = cancels tr"
  by (auto simp: poll_def get_machine_action_def polls_def cancels_def Let_def
      split: reply.splits option.splits if_splits)

lemma poll_state:
  assumes "poll cfg world evidence tr = (x, evidence', tr')"
  shows "(lr_timeout_counter (live_response evidence') = lr_timeout_counter (live_response evidence)
            \<and> (x \<noteq> None \<or> terminal evidence'))
         \<or> (lr_timeout_counter (live_response evidence') = Suc (lr_timeout_counter (live_response evidence))
            \<and> x = None \<and> terminal evidence' = terminal evidence)"
  using assms
  by (auto simp: poll_def get_machine_action_def terminal_def Let_def
      split: reply.splits option.splits if_splits)

lemma wait_loop_polls:
  "0 < SLEEP cfg \<Longrightarrow> wait_loop cfg world evidence tr = (x, evidence', tr') \<Longrightarrow>
     polls tr' \<le> polls tr + remaining cfg evidence"
proof (induction cfg world evidence tr rule: wait_loop.induct)
  case (1 cfg world evidence tr)
  show ?case
  proof (cases "job_open cfg evidence")
    case False
    with "1.prems" show ?thesis
      by (simp add: wait_loop.simps)
  next
    case True
    obtain y e1 tr1 where p: "poll cfg world evidence tr = (y, e1, tr1)"
      by (cases "poll cfg world evidence tr") auto
    have cnt: "polls tr1 = Suc (polls tr)"
      using poll_counts [OF p] by simp
    have pos: "0 < remaining cfg evidence"
      using True "1.prems"(1) by (simp add: job_open_iff remaining_def)
    show ?thesis
    proof (cases y)
      case (Some e)
      with p True "1.prems" have "tr' = tr1"
        by (simp add: wait_loop.simps)
      with cnt pos show ?thesis by simp
    next
      case None
      with p True "1.prems" have w: "wait_loop cfg world e1 tr1 = (x, evidence', tr')"
        by (simp add: wait_loop.simps)
      have ih: "polls tr' \<le> polls tr1 + remaining cfg e1"
        using "1.IH" [OF _ True p [symmetric] _ _ "1.prems"(1) w] "1.prems"(1) None
        by simp
      have "Suc (remaining cfg e1) \<le> remaining cfg evidence"
        using poll_state [OF p] True "1.prems"(1) None
        by (auto simp: remaining_def job_open_iff)
      with ih cnt show ?thesis by simp
    qed
  qed
qed



lemma poll_closed_in_budget:
  assumes "0 < SLEEP cfg" "job_open cfg evidence" "poll cfg world evidence tr = (x, evidence', tr')"
  shows "closed_in_budget cfg evidence'"
  using poll_state [OF assms(3)] assms(1,2)
  by (auto simp: closed_in_budget_def job_open_iff poll_budget_iff)

lemma poll_raised:
  "poll cfg world evidence tr = (Some e, evidence', tr') \<Longrightarrow> evidence' = evidence"
  by (auto simp: poll_def Let_def split: prod.splits option.splits if_splits)

lemma wait_loop_closed_in_budget:
  "0 < SLEEP cfg \<Longrightarrow> closed_in_budget cfg evidence \<Longrightarrow>
   wait_loop cfg world evidence tr = (x, evidence', tr') \<Longrightarrow> closed_in_budget cfg evidence'"
proof (induction cfg world evidence tr rule: wait_loop.induct)
  case (1 cfg world evidence tr)
  show ?case
  proof (cases "job_open cfg evidence")
    case False
    with "1.prems" show ?thesis
      by (simp add: wait_loop.simps)
  next
    case True
    obtain y e1 tr1 where p: "poll cfg world evidence tr = (y, e1, tr1)"
      by (cases "poll cfg world evidence tr") auto
    have c1: "closed_in_budget cfg e1"
      using poll_closed_in_budget [OF "1.prems"(1) True p] .
    show ?thesis
    proof (cases y)
      case (Some e)
      with p True "1.prems" have "evidence' = e1"
        by (simp add: wait_loop.simps)
      with c1 show ?thesis by simp
    next
      case None
      with p True "1.prems" have w: "wait_loop cfg world e1 tr1 = (x, evidence', tr')"
        by (simp add: wait_loop.simps)
      show ?thesis
        using "1.IH" [OF _ True p [symmetric] _ _ "1.prems"(1) c1 w] "1.prems"(1) None by simp
    qed
  qed
qed

lemma wait_loop_cancels:
  "wait_loop cfg world evidence tr = (x, evidence', tr') \<Longrightarrow> cancels tr' = cancels tr"
proof (induction cfg world evidence tr rule: wait_loop.induct)
  case (1 cfg world evidence tr)
  show ?case
  proof (cases "SLEEP cfg \<noteq> 0 \<and> job_open cfg evidence")
    case False
    with "1.prems" show ?thesis
      by (auto simp: wait_loop.simps split: if_splits)
  next
    case True
    obtain y e1 tr1 where p: "poll cfg world evidence tr = (y, e1, tr1)"
      by (cases "poll cfg world evidence tr") auto
    have cnt: "cancels tr1 = cancels tr"
      using poll_counts [OF p] by simp
    show ?thesis
    proof (cases y)
      case (Some e)
      with p True "1.prems" have "tr' = tr1"
        by (simp add: wait_loop.simps)
      with cnt show ?thesis by simp
    next
      case None
      with p True "1.prems" have w: "wait_loop cfg world e1 tr1 = (x, evidence', tr')"
        by (simp add: wait_loop.simps)
      show ?thesis
        using "1.IH" [OF _ _ p [symmetric] _ _ w] True None cnt by simp
    qed
  qed
qed


lemma cancel_counts:
  "cancel_machine_action world tr i = (ok, tr') \<Longrightarrow>
     cancels tr' = Suc (cancels tr) \<and> polls tr' = polls tr"
  by (auto simp: cancel_machine_action_def cancels_def polls_def Let_def split: reply.splits)


lemma poll_cancel_reply:
  "poll cfg (world\<lparr>cancel_reply := r\<rparr>) evidence tr = poll cfg world evidence tr"
  by (simp add: poll_def get_machine_action_def)

lemma wait_loop_cancel_reply:
  "wait_loop cfg (world\<lparr>cancel_reply := r\<rparr>) evidence tr = wait_loop cfg world evidence tr"
proof (induction cfg world evidence tr rule: wait_loop.induct)
  case (1 cfg world evidence tr)
  show ?case
  proof (cases "SLEEP cfg \<noteq> 0 \<and> job_open cfg evidence")
    case False
    then show ?thesis
      by (auto simp: wait_loop.simps [of cfg _ evidence tr])
  next
    case True
    obtain y e1 tr1 where p: "poll cfg world evidence tr = (y, e1, tr1)"
      by (cases "poll cfg world evidence tr") auto
    show ?thesis
    proof (cases y)
      case (Some e)
      with p True show ?thesis
        by (simp add: wait_loop.simps [of cfg _ evidence tr] poll_cancel_reply)
    next
      case None
      have "wait_loop cfg (world\<lparr>cancel_reply := r\<rparr>) e1 tr1 = wait_loop cfg world e1 tr1"
        using "1.IH" [OF _ _ p [symmetric]] True None by simp
      with p True None show ?thesis
        by (simp add: wait_loop.simps [of cfg _ evidence tr] poll_cancel_reply)
    qed
  qed
qed

lemma wait_live_response_timed_out:
  assumes s: "0 < SLEEP cfg" and e: "\<not> terminal evidence"
    and w: "wait_live_response cfg world evidence tr = (None, evidence', tr')"
    and spent: "JOB_TIMEOUT cfg \<le> lr_timeout_counter (live_response evidence') * SLEEP cfg"
  shows "lr_status (live_response evidence') = TIMEOUT cfg
         \<and> has_error (live_response evidence') \<and> \<not> is_finished (live_response evidence')
         \<and> cancels tr' = Suc (cancels tr)"
proof -
  let ?tr0 = "Log INFO (WaitingJob (lr_id (live_response evidence)) (sha256 evidence)) # tr"
  obtain y e1 tr1 where l: "wait_loop cfg world evidence ?tr0 = (y, e1, tr1)"
    by (cases "wait_loop cfg world evidence ?tr0") auto
  with w have y: "y = None"
    by (auto simp: wait_live_response_def split: option.splits if_splits prod.splits)
  have inv: "closed_in_budget cfg e1"
    using wait_loop_closed_in_budget [OF s _ l] e by (simp add: closed_in_budget_def)
  have c: "cancels tr1 = cancels tr"
    using wait_loop_cancels [OF l] by (simp add: cancels_def)
  show ?thesis
  proof (cases "budget_spent (JOB_TIMEOUT cfg) (SLEEP cfg) (lr_timeout_counter (live_response e1))")
    case True
    then have open_end: "\<not> terminal e1"
      using inv s by (auto simp: closed_in_budget_def budget_spent_iff)
    obtain ok tr2 where k: "cancel_machine_action world
        (Log ERROR (JobFailed (lr_id (live_response e1)) (sha256 e1) (JobTimeoutHit (JOB_TIMEOUT cfg))) # tr1)
        (lr_id (live_response e1)) = (ok, tr2)"
      by (cases "cancel_machine_action world
        (Log ERROR (JobFailed (lr_id (live_response e1)) (sha256 e1) (JobTimeoutHit (JOB_TIMEOUT cfg))) # tr1)
        (lr_id (live_response e1))") auto
    have "cancels tr2 = Suc (cancels tr1)"
      using cancel_counts [OF k] by (simp add: cancels_def)
    with w l y True k c open_end show ?thesis
      by (auto simp: wait_live_response_def Let_def terminal_def cancels_def)
  next
    case False
    with w l y have "evidence' = e1"
      by (simp add: wait_live_response_def)
    with False spent s show ?thesis
      by (simp add: budget_spent_iff)
  qed
qed

lemma wait_live_response_polls:
  assumes s: "0 < SLEEP cfg"
    and w: "wait_live_response cfg world evidence tr = (x, evidence', tr')"
  shows "polls tr' \<le> polls tr + remaining cfg evidence"
proof -
  let ?tr0 = "Log INFO (WaitingJob (lr_id (live_response evidence)) (sha256 evidence)) # tr"
  obtain y e1 tr1 where l: "wait_loop cfg world evidence ?tr0 = (y, e1, tr1)"
    by (cases "wait_loop cfg world evidence ?tr0") auto
  have p: "polls tr1 \<le> polls tr + remaining cfg evidence"
    using wait_loop_polls [OF s l] by (simp add: polls_def)
  obtain ok tr2 where k: "cancel_machine_action world
        (Log ERROR (JobFailed (lr_id (live_response e1)) (sha256 e1) (JobTimeoutHit (JOB_TIMEOUT cfg))) # tr1)
        (lr_id (live_response e1)) = (ok, tr2)"
    by (cases "cancel_machine_action world
        (Log ERROR (JobFailed (lr_id (live_response e1)) (sha256 e1) (JobTimeoutHit (JOB_TIMEOUT cfg))) # tr1)
        (lr_id (live_response e1))") auto
  have "polls tr2 = polls tr1"
    using cancel_counts [OF k] by (simp add: polls_def)
  with w l k p show ?thesis
    by (auto simp: wait_live_response_def Let_def polls_def split: option.splits if_splits)
qed

lemma wait_live_response_cancel_reply:
  "fst (snd (wait_live_response cfg (world\<lparr>cancel_reply := r\<rparr>) evidence tr))
     = fst (snd (wait_live_response cfg world evidence tr))"
  by (simp add: wait_live_response_def wait_loop_cancel_reply Let_def
      split: prod.splits option.splits)

text \<open>
  Claim C2, as amended. A job that is open when \<^verbatim>\<open>wait_live_response\<close> takes it is
  polled at most \<open>poll_budget JOB_TIMEOUT SLEEP\<close> times less the polls already counted:
  the least number of intervals that cover the timeout, which is the quotient rounded up
  and not down. When the call returns with the counter at the budget, the job is marked
  failed with the status \<^verbatim>\<open>TIMEOUT\<close>, it is not finished, exactly one cancellation
  request has been sent, and the job returned is the same whatever the vendor answers to
  that request.
\<close>

theorem wait_live_response_budget:
  assumes "0 < SLEEP cfg" and "\<not> terminal evidence"
    and "wait_live_response cfg world evidence tr = (x, evidence', tr')"
  shows "polls tr' - polls tr
           \<le> poll_budget (JOB_TIMEOUT cfg) (SLEEP cfg) - lr_timeout_counter (live_response evidence)
         \<and> (x = None \<and> JOB_TIMEOUT cfg \<le> lr_timeout_counter (live_response evidence') * SLEEP cfg \<longrightarrow>
              lr_status (live_response evidence') = TIMEOUT cfg
              \<and> has_error (live_response evidence') \<and> \<not> is_finished (live_response evidence')
              \<and> cancels tr' = Suc (cancels tr)
              \<and> (\<forall>r. fst (snd (wait_live_response cfg (world\<lparr>cancel_reply := r\<rparr>) evidence tr)) = evidence'))"
proof -
  have "polls tr' \<le> polls tr + remaining cfg evidence"
    using wait_live_response_polls [OF assms(1,3)] .
  then have a: "polls tr' - polls tr
      \<le> poll_budget (JOB_TIMEOUT cfg) (SLEEP cfg) - lr_timeout_counter (live_response evidence)"
    using assms(2) by (simp add: remaining_def)
  have b: "fst (snd (wait_live_response cfg (world\<lparr>cancel_reply := r\<rparr>) evidence tr)) = evidence'" for r
    using assms(3) by (simp add: wait_live_response_cancel_reply)
  show ?thesis
    using a b wait_live_response_timed_out [OF assms(1,2)] assms(3) by blast
qed


theorem wait_live_response_budget_witness:
  "polls (snd (snd (wait_live_response demo_config stuck_world demo_evidence []))) - polls []
     \<le> poll_budget 30 10 - 0
   \<and> lr_status (live_response (fst (snd (wait_live_response demo_config stuck_world demo_evidence []))))
       = ''TimeOut''
   \<and> has_error (live_response (fst (snd (wait_live_response demo_config stuck_world demo_evidence []))))
   \<and> cancels (snd (snd (wait_live_response demo_config stuck_world demo_evidence []))) = Suc (cancels [])"
  using wait_live_response_budget [of demo_config demo_evidence stuck_world "[]"
      "fst (wait_live_response demo_config stuck_world demo_evidence [])"
      "fst (snd (wait_live_response demo_config stuck_world demo_evidence []))"
      "snd (snd (wait_live_response demo_config stuck_world demo_evidence []))"]
  by (simp add: wait_live_response_def wait_loop.simps job_open_def within_budget_iff
      budget_spent_iff poll_def get_machine_action_def cancel_machine_action_def
      demo_config_def stuck_world_def idle_world_def demo_evidence_def blank_job_def
      job_record_def polls_def cancels_def poll_budget_def terminal_def Let_def)

text \<open>
  With a timeout of 35 seconds polled every 10 seconds, a job that stays in progress is
  polled four times, one more than the quotient rounded down.
\<close>

theorem wait_live_response_floor_counterexample:
  "\<not> polls (snd (snd (wait_live_response (demo_config\<lparr>JOB_TIMEOUT := 35\<rparr>) stuck_world demo_evidence [])))
       \<le> JOB_TIMEOUT (demo_config\<lparr>JOB_TIMEOUT := 35\<rparr>) div SLEEP (demo_config\<lparr>JOB_TIMEOUT := 35\<rparr>)"
  by (simp add: wait_live_response_def wait_loop.simps job_open_def within_budget_iff
      budget_spent_iff poll_def get_machine_action_def cancel_machine_action_def
      demo_config_def stuck_world_def idle_world_def demo_evidence_def blank_job_def
      job_record_def polls_def Let_def)



text \<open>
  A record with a status of the failure set that reports no error: the log line reads the
  first error before the job is marked, so the pass leaves with \<^verbatim>\<open>IndexError\<close> and
  the job as it was. The caller's handler then marks the job failed.
\<close>

lemma poll_no_error_listed:
  assumes "get_action_reply world (GetAction (lr_id (live_response evidence)) # Sleep (of_nat (SLEEP cfg)) # tr) = Body ma"
    and "ma_status ma \<noteq> SUCCEEDED cfg" "ma_status ma \<in> set (FAIL cfg)" "first_error ma = None"
  shows "poll cfg world evidence tr
           = (Some IndexError, evidence, GetAction (lr_id (live_response evidence)) # Sleep (of_nat (SLEEP cfg)) # tr)"
  using assms
  by (simp add: poll_def get_machine_action_def Let_def)





section \<open>Properties of the containment sequencer\<close>

lemma begun_Cons: "begun (ev # tr) = begun tr @ (case begun_kind ev of None \<Rightarrow> [] | Some k \<Rightarrow> [k])"
  by (simp add: begun_def split: option.splits)

lemma is_machine_available_trace:
  assumes "is_machine_available cfg world tr machine_id = (b, tr1)"
  shows "polls tr1 = polls tr" "cancels tr1 = cancels tr" "submits tr1 = submits tr"
    "live_submits tr1 = live_submits tr" "begun tr1 = begun tr" "checks tr1 = Suc (checks tr)"
    "b \<Longrightarrow> tr1 = Log INFO (MachineAvailable machine_id) # ListActions machine_id # tr"
  using assms
  by (auto simp: is_machine_available_def get_machine_actions_def Let_def polls_def cancels_def
      submits_def live_submits_def checks_def begun_Cons begun_kind_def
      split: reply.splits option.splits)

lemma submit_loop_done:
  "0 < SLEEP cfg \<Longrightarrow> submit_loop cfg world kind machine_id c False tr = (None, c, tr)"
  by (simp add: submit_loop.simps)

lemma submit_loop_cases:
  assumes "0 < SLEEP cfg"
    and "submit_loop cfg world kind machine_id c True tr = (x, c', tr')"
  shows "x = None \<and> polls tr' = polls tr \<and> cancels tr' = cancels tr \<and> begun tr' = begun tr
         \<and> live_submits tr' = live_submits tr \<and> c \<le> c'
         \<and> (budget_spent (MACHINE_TIMEOUT cfg) (SLEEP cfg) c' \<and> submits tr' = submits tr
              \<and> checks tr' = checks tr + (c' - c)
            \<or> \<not> budget_spent (MACHINE_TIMEOUT cfg) (SLEEP cfg) c' \<and> submits tr' = Suc (submits tr)
              \<and> (\<exists>l msg h. fst (is_machine_available cfg world h machine_id)
                    \<and> tr' = Log l msg # SubmitAction kind machine_id
                              # Log INFO (MachineAvailable machine_id) # ListActions machine_id # h))"
  using assms
proof (induction cfg world kind machine_id c "True" tr rule: submit_loop.induct)
  case (1 cfg world kind machine_id c tr)
  note s = \<open>0 < SLEEP cfg\<close>
  show ?case
  proof (cases "within_budget (MACHINE_TIMEOUT cfg) (SLEEP cfg) c")
    case False
    with "1.prems" s show ?thesis
      by (auto simp: submit_loop.simps within_budget_iff budget_spent_iff)
  next
    case True
    obtain b tr1 where a: "is_machine_available cfg world tr machine_id = (b, tr1)"
      by (cases "is_machine_available cfg world tr machine_id") auto
    note t = is_machine_available_trace [OF a]
    show ?thesis
    proof (cases b)
      case True
      have tr1: "tr1 = Log INFO (MachineAvailable machine_id) # ListActions machine_id # tr"
        using t(7) True by simp
      have av: "fst (is_machine_available cfg world tr machine_id)"
        using a True by simp
      have nsp: "\<not> budget_spent (MACHINE_TIMEOUT cfg) (SLEEP cfg) c"
        using \<open>within_budget (MACHINE_TIMEOUT cfg) (SLEEP cfg) c\<close> s
        by (simp add: within_budget_iff budget_spent_iff)
      from "1.prems"(2) a True \<open>within_budget (MACHINE_TIMEOUT cfg) (SLEEP cfg) c\<close> s
      have res: "x = None \<and> c' = c \<and> (\<exists>l msg. tr' = Log l msg # SubmitAction kind machine_id # tr1)"
        by (auto simp: submit_loop.simps [of cfg world kind machine_id c True tr] Let_def
            submit_loop_done split: reply.splits)
      then obtain l msg where tr': "tr' = Log l msg # SubmitAction kind machine_id # tr1"
        by blast
      have cnt: "polls tr' = polls tr \<and> cancels tr' = cancels tr \<and> begun tr' = begun tr
          \<and> live_submits tr' = live_submits tr \<and> submits tr' = Suc (submits tr)"
        using "1.prems"(2) a True \<open>within_budget (MACHINE_TIMEOUT cfg) (SLEEP cfg) c\<close> s tr1
        by (auto simp: submit_loop.simps [of cfg world kind machine_id c True tr] Let_def
            submit_loop_done polls_def cancels_def submits_def live_submits_def begun_Cons begun_kind_def
            split: reply.splits)
      show ?thesis
        using res cnt nsp av tr' tr1 by auto
    next
      case False
      from "1.prems"(2) a False \<open>within_budget (MACHINE_TIMEOUT cfg) (SLEEP cfg) c\<close> s
      have w: "submit_loop cfg world kind machine_id (c + 1) True (Sleep (of_nat (SLEEP cfg)) # tr1) = (x, c', tr')"
        by (simp add: submit_loop.simps [of cfg world kind machine_id c True tr])
      have p1: "SLEEP cfg \<noteq> 0" using s by simp
      have p2: "within_budget (MACHINE_TIMEOUT cfg) (SLEEP cfg) c \<and> True"
        using \<open>within_budget (MACHINE_TIMEOUT cfg) (SLEEP cfg) c\<close> by simp
      have p4: "b = False" using False by simp
      note ih = "1.hyps"(4) [OF p1 p2 a [symmetric] p4 s w]
      have step: "polls (Sleep (of_nat (SLEEP cfg)) # tr1) = polls tr"
        "cancels (Sleep (of_nat (SLEEP cfg)) # tr1) = cancels tr"
        "begun (Sleep (of_nat (SLEEP cfg)) # tr1) = begun tr"
        "live_submits (Sleep (of_nat (SLEEP cfg)) # tr1) = live_submits tr"
        "submits (Sleep (of_nat (SLEEP cfg)) # tr1) = submits tr"
        "checks (Sleep (of_nat (SLEEP cfg)) # tr1) = Suc (checks tr)"
        using t by (simp_all add: polls_def cancels_def submits_def live_submits_def checks_def
            begun_Cons begun_kind_def)
      have ih': "x = None \<and> polls tr' = polls tr \<and> cancels tr' = cancels tr \<and> begun tr' = begun tr
         \<and> live_submits tr' = live_submits tr \<and> c + 1 \<le> c'
         \<and> (budget_spent (MACHINE_TIMEOUT cfg) (SLEEP cfg) c' \<and> submits tr' = submits tr
              \<and> checks tr' = Suc (checks tr) + (c' - (c + 1))
            \<or> \<not> budget_spent (MACHINE_TIMEOUT cfg) (SLEEP cfg) c' \<and> submits tr' = Suc (submits tr)
              \<and> (\<exists>l msg h. fst (is_machine_available cfg world h machine_id)
                    \<and> tr' = Log l msg # SubmitAction kind machine_id
                              # Log INFO (MachineAvailable machine_id) # ListActions machine_id # h))"
        using ih by (simp only: step)
      have le: "c + 1 \<le> c'" using ih' by blast
      have arith: "Suc (checks tr) + (c' - (c + 1)) = checks tr + (c' - c)"
        using le by simp
      have le': "c \<le> c'" using le by simp
      show ?thesis
        using ih' le' unfolding arith by blast
    qed
  qed
qed

lemma action_on_machine_cases:
  assumes s: "0 < SLEEP cfg"
    and a: "action_on_machine cfg world kind machine_id tr = (x, tr')"
  shows "x = None \<and> polls tr' = polls tr \<and> cancels tr' = cancels tr \<and> begun tr' = begun tr
         \<and> live_submits tr' = live_submits tr
         \<and> (submits tr' = submits tr
              \<and> hd tr' = Log ERROR (ActionFailed kind machine_id (MachineNotAvailable (MACHINE_TIMEOUT cfg)))
            \<or> submits tr' = Suc (submits tr)
              \<and> (\<exists>l msg h. fst (is_machine_available cfg world h machine_id)
                    \<and> tr' = Sleep (of_nat (SLEEP cfg)) # Log l msg # SubmitAction kind machine_id
                              # Log INFO (MachineAvailable machine_id) # ListActions machine_id # h))"
proof -
  let ?tr0 = "Log INFO (ActionOnMachine kind machine_id) # tr"
  obtain y c tr1 where l: "submit_loop cfg world kind machine_id 0 True ?tr0 = (y, c, tr1)"
    by (cases "submit_loop cfg world kind machine_id 0 True ?tr0") auto
  note f = submit_loop_cases [OF s l]
  have y: "y = None" using f by blast
  have base: "polls ?tr0 = polls tr" "cancels ?tr0 = cancels tr" "begun ?tr0 = begun tr"
    "live_submits ?tr0 = live_submits tr" "submits ?tr0 = submits tr"
    by (simp_all add: polls_def cancels_def live_submits_def submits_def begun_Cons begun_kind_def)
  show ?thesis
  proof (cases "budget_spent (MACHINE_TIMEOUT cfg) (SLEEP cfg) c")
    case True
    with a l y have tr': "tr' = Log ERROR (ActionFailed kind machine_id (MachineNotAvailable (MACHINE_TIMEOUT cfg))) # tr1"
      and x: "x = None"
      by (simp_all add: action_on_machine_def)
    have "polls tr' = polls tr1" "cancels tr' = cancels tr1" "begun tr' = begun tr1"
      "live_submits tr' = live_submits tr1" "submits tr' = submits tr1"
      using tr' by (simp_all add: polls_def cancels_def live_submits_def submits_def begun_Cons begun_kind_def)
    with f True base tr' x show ?thesis by simp
  next
    case False
    with a l y have tr': "tr' = Sleep (of_nat (SLEEP cfg)) # tr1" and x: "x = None"
      by (simp_all add: action_on_machine_def)
    have "polls tr' = polls tr1" "cancels tr' = cancels tr1" "begun tr' = begun tr1"
      "live_submits tr' = live_submits tr1" "submits tr' = submits tr1"
      using tr' by (simp_all add: polls_def cancels_def live_submits_def submits_def begun_Cons begun_kind_def)
    with f False base tr' x show ?thesis by auto
  qed
qed

lemma action_on_machines_counts:
  "0 < SLEEP cfg \<Longrightarrow> action_on_machines cfg world kind ms tr = (x, tr') \<Longrightarrow>
     x = None \<and> polls tr' = polls tr \<and> cancels tr' = cancels tr \<and> begun tr' = begun tr
     \<and> live_submits tr' = live_submits tr \<and> submits tr' \<le> submits tr + length ms"
proof (induction ms arbitrary: tr)
  case Nil
  then show ?case by simp
next
  case (Cons m ms)
  obtain y tr1 where a: "action_on_machine cfg world kind m tr = (y, tr1)"
    by (cases "action_on_machine cfg world kind m tr") auto
  note f = action_on_machine_cases [OF Cons.prems(1) a]
  then have y: "y = None" by blast
  with Cons.prems(2) a have r: "action_on_machines cfg world kind ms tr1 = (x, tr')"
    by simp
  note ih = Cons.IH [OF Cons.prems(1) r]
  have "submits tr1 \<le> Suc (submits tr)" using f by auto
  with ih f show ?case by auto
qed

lemma run_action_begun:
  assumes "0 < SLEEP cfg" and "run_action kind cfg world evidence tr = (x, tr')"
  shows "x = None \<and> begun tr' = begun tr @ [kind] \<and> polls tr' = polls tr \<and> cancels tr' = cancels tr
         \<and> live_submits tr' = live_submits tr"
  using action_on_machines_counts [OF assms(1) assms(2) [unfolded run_action_def]]
  by (simp add: polls_def cancels_def live_submits_def begun_Cons begun_kind_def)










section \<open>The availability budget\<close>










section \<open>Properties of the remediation planner\<close>

lemma when_triggered_begun:
  assumes "0 < SLEEP cfg"
    and "when_triggered b (run_action kind cfg world evidence) (None, tr) = (x, tr')"
  shows "x = None \<and> begun tr' = begun tr @ (if b then [kind] else [])
         \<and> polls tr' = polls tr \<and> cancels tr' = cancels tr \<and> live_submits tr' = live_submits tr"
  using assms run_action_begun [of cfg kind world evidence tr x tr']
  by (auto simp: when_triggered_def split: if_splits)

text \<open>
  Claim C8. Whatever the vendor answers, \<^verbatim>\<open>run_automated_machine_actions\<close> returns
  without an exception, and the containment functions it has begun are exactly the kinds
  that are active and have the verdict of the sample among their verdicts, in the order
  investigation package, antivirus scan, quarantine, isolation. The vendor side is
  arbitrary, so a kind whose every request fails or whose machines stay busy does not
  keep the next kind from being looked at.
\<close>

theorem run_automated_machine_actions_order:
  assumes "0 < SLEEP cfg"
    and "run_automated_machine_actions cfg world sample_verdict evidence tr = (x, tr')"
  shows "x = None
         \<and> begun tr' = begun tr @ filter (\<lambda>kind. ACTIVE cfg kind \<and> sample_verdict \<in> set (VERDICTS cfg kind))
              [COLLECT_INVESTIGATION_PACKAGE, ANTI_VIRUS_SCAN, STOP_AND_QUARANTINE_FILE, ISOLATION]"
proof -
  obtain x1 t1 where r1: "when_triggered (triggered cfg sample_verdict COLLECT_INVESTIGATION_PACKAGE)
      (run_action COLLECT_INVESTIGATION_PACKAGE cfg world evidence) (None, tr) = (x1, t1)"
    by (metis surj_pair)
  note f1 = when_triggered_begun [OF assms(1) r1]
  then have x1: "x1 = None" by blast
  obtain x2 t2 where r2: "when_triggered (triggered cfg sample_verdict ANTI_VIRUS_SCAN)
      (run_action ANTI_VIRUS_SCAN cfg world evidence) (None, t1) = (x2, t2)"
    by (metis surj_pair)
  note f2 = when_triggered_begun [OF assms(1) r2]
  then have x2: "x2 = None" by blast
  obtain x3 t3 where r3: "when_triggered (triggered cfg sample_verdict STOP_AND_QUARANTINE_FILE)
      (run_action STOP_AND_QUARANTINE_FILE cfg world evidence) (None, t2) = (x3, t3)"
    by (metis surj_pair)
  note f3 = when_triggered_begun [OF assms(1) r3]
  then have x3: "x3 = None" by blast
  have r4: "when_triggered (triggered cfg sample_verdict ISOLATION)
      (run_action ISOLATION cfg world evidence) (None, t3) = (x, tr')"
    using assms(2) r1 r2 r3 x1 x2 x3
    by (simp add: run_automated_machine_actions_def Let_def collect_investigation_package_def
        run_antivirus_scan_def stop_and_quarantine_file_def isolate_machine_def)
  note f4 = when_triggered_begun [OF assms(1) r4]
  show ?thesis
    using f1 f2 f3 f4 by (simp add: triggered_def)
qed


theorem run_automated_machine_actions_order_witness:
  "fst (run_automated_machine_actions demo_config refusing_world ''malicious'' demo_evidence []) = None
   \<and> begun (snd (run_automated_machine_actions demo_config refusing_world ''malicious'' demo_evidence []))
       = [COLLECT_INVESTIGATION_PACKAGE, ANTI_VIRUS_SCAN, STOP_AND_QUARANTINE_FILE, ISOLATION]
   \<and> begun (snd (run_automated_machine_actions (demo_config\<lparr>ACTIVE := (\<lambda>k. k \<noteq> ANTI_VIRUS_SCAN)\<rparr>)
         busy_world ''malicious'' demo_evidence []))
       = [COLLECT_INVESTIGATION_PACKAGE, STOP_AND_QUARANTINE_FILE, ISOLATION]
   \<and> begun (snd (run_automated_machine_actions demo_config idle_world ''clean'' demo_evidence [])) = []"
  using run_automated_machine_actions_order [of demo_config refusing_world "''malicious''" demo_evidence "[]"
      "fst (run_automated_machine_actions demo_config refusing_world ''malicious'' demo_evidence [])"
      "snd (run_automated_machine_actions demo_config refusing_world ''malicious'' demo_evidence [])"]
    run_automated_machine_actions_order [of "demo_config\<lparr>ACTIVE := (\<lambda>k. k \<noteq> ANTI_VIRUS_SCAN)\<rparr>"
      busy_world "''malicious''" demo_evidence "[]"
      "fst (run_automated_machine_actions (demo_config\<lparr>ACTIVE := (\<lambda>k. k \<noteq> ANTI_VIRUS_SCAN)\<rparr>)
         busy_world ''malicious'' demo_evidence [])"
      "snd (run_automated_machine_actions (demo_config\<lparr>ACTIVE := (\<lambda>k. k \<noteq> ANTI_VIRUS_SCAN)\<rparr>)
         busy_world ''malicious'' demo_evidence [])"]
    run_automated_machine_actions_order [of demo_config idle_world "''clean''" demo_evidence "[]"
      "fst (run_automated_machine_actions demo_config idle_world ''clean'' demo_evidence [])"
      "snd (run_automated_machine_actions demo_config idle_world ''clean'' demo_evidence [])"]
  by (simp add: demo_config_def begun_def)
section \<open>Cancellation\<close>















section \<open>Properties of the live-response sequencer\<close>

text \<open>
  Claim C9. A live-response request that comes back with an error body, for a machine that
  passed the availability check just before: the error is written to the log, the job of
  the evidence is marked failed, nothing else about the evidence changes, and the record
  of no job is fetched, so the polling loop is not entered. The loop over the evidences
  then goes on with the next evidence from that history.
\<close>

theorem live_response_submit_error:
  assumes "fst (is_machine_available cfg world tr machine_id)"
    and "submit_live_response_reply world
           (RunLiveResponse machine_id (absolute_path evidence)
              # Log INFO (TryingToStart (absolute_path evidence) machine_id)
              # Log INFO (MachineAvailable machine_id) # ListActions machine_id # tr) = ErrorBody msg"
  shows "live_response_for cfg ops world machine_id evidence tr
           = (evidence\<lparr>live_response := (live_response evidence)\<lparr>has_error := True\<rparr>\<rparr>,
              Log ERROR (LiveResponseError machine_id (sha256 evidence) (Text msg))
                # RunLiveResponse machine_id (absolute_path evidence)
                # Log INFO (TryingToStart (absolute_path evidence) machine_id)
                # Log INFO (MachineAvailable machine_id) # ListActions machine_id # tr)
         \<and> polls (snd (live_response_for cfg ops world machine_id evidence tr)) = polls tr
         \<and> cancels (snd (live_response_for cfg ops world machine_id evidence tr)) = cancels tr
         \<and> (\<forall>rest. live_response_for_all cfg ops world machine_id (evidence # rest) tr
               = (evidence\<lparr>live_response := (live_response evidence)\<lparr>has_error := True\<rparr>\<rparr>
                    # fst (live_response_for_all cfg ops world machine_id rest
                           (snd (live_response_for cfg ops world machine_id evidence tr))),
                  snd (live_response_for_all cfg ops world machine_id rest
                           (snd (live_response_for cfg ops world machine_id evidence tr)))))"
proof -
  obtain b tr1 where a: "is_machine_available cfg world tr machine_id = (b, tr1)"
    by (cases "is_machine_available cfg world tr machine_id") auto
  with assms(1) have b: "b" by simp
  have tr1: "tr1 = Log INFO (MachineAvailable machine_id) # ListActions machine_id # tr"
    using is_machine_available_trace(7) [OF a b] .
  have f: "live_response_for cfg ops world machine_id evidence tr
           = (evidence\<lparr>live_response := (live_response evidence)\<lparr>has_error := True\<rparr>\<rparr>,
              Log ERROR (LiveResponseError machine_id (sha256 evidence) (Text msg))
                # RunLiveResponse machine_id (absolute_path evidence)
                # Log INFO (TryingToStart (absolute_path evidence) machine_id)
                # Log INFO (MachineAvailable machine_id) # ListActions machine_id # tr)"
    using a b tr1 assms(2) by (simp add: live_response_for_def Let_def)
  show ?thesis
    unfolding f by (simp add: polls_def cancels_def f split: prod.splits)
qed


theorem live_response_submit_error_witness:
  "live_response_for demo_config demo_models rejecting_world ''m1'' demo_evidence []
     = (demo_evidence\<lparr>live_response := blank_job\<lparr>has_error := True\<rparr>\<rparr>,
        [Log ERROR (LiveResponseError ''m1'' ''abc'' (Text ''Machine is not reachable'')),
         RunLiveResponse ''m1'' ''C:/x.exe'', Log INFO (TryingToStart ''C:/x.exe'' ''m1''),
         Log INFO (MachineAvailable ''m1''), ListActions ''m1''])
   \<and> polls (snd (live_response_for demo_config demo_models rejecting_world ''m1'' demo_evidence [])) = 0
   \<and> (\<exists>x ms tr'.
         run_live_response 3 demo_config demo_models rejecting_world
           [demo_machine, demo_machine\<lparr>m_id := ''m2''\<rparr>] [] = Some (x, ms, tr')
         \<and> x = None \<and> live_submits tr' = 2)"
proof -
  have a: "fst (is_machine_available demo_config rejecting_world [] ''m1'')"
    by (simp add: is_machine_available_def get_machine_actions_def demo_config_def
        rejecting_world_def idle_world_def listing_def)
  have b: "submit_live_response_reply rejecting_world
      (RunLiveResponse ''m1'' (absolute_path demo_evidence)
         # Log INFO (TryingToStart (absolute_path demo_evidence) ''m1'')
         # Log INFO (MachineAvailable ''m1'') # ListActions ''m1'' # []) = ErrorBody ''Machine is not reachable''"
    by (simp add: rejecting_world_def idle_world_def)
  note t = live_response_submit_error [OF a b, of demo_models]
  have c: "(case run_live_response 3 demo_config demo_models rejecting_world
           [demo_machine, demo_machine\<lparr>m_id := ''m2''\<rparr>] [] of
         None \<Rightarrow> False | Some (x, ms, tr') \<Rightarrow> x = None \<and> live_submits tr' = 2)"
    by code_simp
  then have d: "\<exists>x ms tr'.
         run_live_response 3 demo_config demo_models rejecting_world
           [demo_machine, demo_machine\<lparr>m_id := ''m2''\<rparr>] [] = Some (x, ms, tr')
         \<and> x = None \<and> live_submits tr' = 2"
    by (auto split: option.splits)
  show ?thesis
    using t d by (simp add: demo_evidence_def polls_def)
qed

text \<open>
  Claim C10. One pass of the loop over a machine in \<^verbatim>\<open>run_live_response\<close>. When the
  first availability check passes, the machine's counter is after the pass what it was
  before, whatever happens to the evidences. When the first check fails, the counter goes
  up by one and the pass ends with a sleep of \<^verbatim>\<open>SLEEP\<close> seconds. And an evidence whose
  second check fails is left as it was after a sleep of \<^verbatim>\<open>SLEEP / 60\<close> seconds: the
  second check never touches the counter.
\<close>

theorem machine_pass_counter:
  "(fst (is_machine_available cfg world tr (m_id machine)) \<longrightarrow>
      m_timeout_counter (fst (machine_pass cfg ops world machine tr)) = m_timeout_counter machine)
   \<and> (\<not> fst (is_machine_available cfg world tr (m_id machine)) \<longrightarrow>
        fst (machine_pass cfg ops world machine tr)
          = machine\<lparr>m_timeout_counter := m_timeout_counter machine + 1\<rparr>
        \<and> snd (machine_pass cfg ops world machine tr)
          = Sleep (of_nat (SLEEP cfg)) # snd (is_machine_available cfg world tr (m_id machine)))
   \<and> (\<forall>evidence tr0. \<not> fst (is_machine_available cfg world tr0 (m_id machine)) \<longrightarrow>
        live_response_for cfg ops world (m_id machine) evidence tr0
          = (evidence, Sleep (of_nat (SLEEP cfg) / 60) # snd (is_machine_available cfg world tr0 (m_id machine))))"
  by (auto simp: machine_pass_def live_response_for_def split: prod.splits bool.splits)


theorem machine_pass_counter_witness:
  "m_timeout_counter (fst (machine_pass demo_config demo_models flapping_world demo_machine [])) = 0
   \<and> snd (machine_pass demo_config demo_models flapping_world demo_machine [])
       = [Sleep (1 / 6), Log WARNING (MachineBusy ''m1'' ''LiveResponse'' ''InProgress''),
          ListActions ''m1'', Log INFO (MachineAvailable ''m1''), ListActions ''m1'']
   \<and> m_timeout_counter (fst (machine_pass demo_config demo_models busy_world demo_machine [])) = 1
   \<and> hd (snd (machine_pass demo_config demo_models busy_world demo_machine [])) = Sleep 10"
  using machine_pass_counter [of demo_config flapping_world "[]" demo_machine demo_models]
    machine_pass_counter [of demo_config busy_world "[]" demo_machine demo_models]
  by (simp add: machine_pass_def live_response_for_def is_machine_available_def
      get_machine_actions_def flapping_world_def busy_world_def idle_world_def listing_def
      demo_config_def demo_machine_def checks_def Let_def)

text \<open>
  What follows from it: on the vendor side \<open>flapping_world\<close>, where the first check of
  every pass succeeds and the second fails, the counter stays where it is and the loop
  over the machine does not end, however much fuel it is given.
\<close>

lemma flapping_loop_never_ends:
  "even (checks tr) \<Longrightarrow>
     machine_loop fuel demo_config demo_models flapping_world demo_machine tr = None"
proof (induction fuel arbitrary: tr)
  case 0
  then show ?case by simp
next
  case (Suc fuel)
  let ?t2 = "Sleep (1 / 6) # Log WARNING (MachineBusy ''m1'' ''LiveResponse'' ''InProgress'')
      # ListActions ''m1'' # Log INFO (MachineAvailable ''m1'') # ListActions ''m1'' # tr"
  have p: "machine_pass demo_config demo_models flapping_world demo_machine tr = (demo_machine, ?t2)"
    using Suc.prems
    by (simp add: machine_pass_def live_response_for_def is_machine_available_def
        get_machine_actions_def flapping_world_def idle_world_def listing_def demo_config_def
        demo_machine_def checks_def Let_def)
  have "even (checks ?t2)"
    using Suc.prems by (simp add: checks_def)
  then have "machine_loop fuel demo_config demo_models flapping_world demo_machine ?t2 = None"
    by (rule Suc.IH)
  with p show ?case
    by (simp add: within_budget_iff demo_config_def demo_models_def demo_machine_def
        demo_evidence_def blank_job_def terminal_def)
qed

end

